theory Spec2Isabelle
  imports Main "HOL-Library.Word" "HOL-Library.Char_ord" "HOL-Library.List_Lexorder"
    "HOL-Library.Product_Lexorder"
begin

unbundle bit_operations_syntax

section \<open>Bytes and text\<close>

text \<open>
  \<open>std::string\<close> is a \<open>string\<close> (a list of 8-bit characters), \<open>std::vector<uint8_t>\<close> and
  \<open>std::vector<unsigned char>\<close> are lists of \<open>8 word\<close>. Copying a range of one into the other
  converts element by element.
\<close>

type_synonym byte = "8 word"

definition to_bytes :: "string \<Rightarrow> byte list" where
  "to_bytes s = map of_char s"

definition to_chars :: "byte list \<Rightarrow> string" where
  "to_chars bs = map (\<lambda>b. char_of (unat b)) bs"

text \<open>\<open>std::to_string\<close> on an unsigned value: its decimal digits, most significant first.\<close>

definition digit_char :: "nat \<Rightarrow> char" where
  "digit_char d = char_of (48 + d)"

fun to_string :: "nat \<Rightarrow> string" where
  "to_string n = (if n < 10 then [digit_char n] else to_string (n div 10) @ [digit_char (n mod 10)])"

declare to_string.simps [simp del]

text \<open>
  \<open>sprintf(&hash[i * 2], "%02x", (unsigned int)b)\<close>: two lowercase hexadecimal digits,
  high nibble first.
\<close>

definition hex_digits :: string where
  "hex_digits = ''0123456789abcdef''"

definition hex2 :: "byte \<Rightarrow> string" where
  "hex2 b = [hex_digits ! unat (drop_bit 4 b), hex_digits ! unat (b AND 15)]"

text \<open>
  Reading lowercase hexadecimal text back, to say what a hexadecimal text denotes: the value of
  a digit, and the bytes denoted by a text of two digits per byte, high digit first.
\<close>

definition hex_value :: "char \<Rightarrow> nat" where
  "hex_value c =
     (if CHR ''0'' \<le> c \<and> c \<le> CHR ''9'' then of_char c - 48
      else if CHR ''a'' \<le> c \<and> c \<le> CHR ''f'' then of_char c - 87
      else 0)"

fun from_hex :: "string \<Rightarrow> byte list" where
  "from_hex (a # b # cs) = of_nat (16 * hex_value a + hex_value b) # from_hex cs"
| "from_hex cs = []"

section \<open>Exceptions\<close>

text \<open>
  Every exception the modelled code can meet derives from \<open>std::exception\<close>:
  the two that \<open>std::stoi\<close> throws, and whatever the storage layer throws (with its message).
\<close>

datatype exn = invalid_argument | out_of_range | storage_error string

text \<open>
  \<open>std::stoi(str)\<close> in base 10: leading whitespace is skipped, one optional sign is read, then the
  longest run of decimal digits; trailing characters are ignored. No digit at all throws
  \<open>std::invalid_argument\<close>, a value outside \<open>int\<close> (32 bits) throws \<open>std::out_of_range\<close>.
\<close>

definition isspace :: "char \<Rightarrow> bool" where
  "isspace c = (c = CHR '' '' \<or> c = CHR 0x09 \<or> c = CHR 0x0A \<or> c = CHR 0x0B \<or> c = CHR 0x0C \<or> c = CHR 0x0D)"

definition isdigit :: "char \<Rightarrow> bool" where
  "isdigit c = (CHR ''0'' \<le> c \<and> c \<le> CHR ''9'')"

definition digits_value :: "string \<Rightarrow> int" where
  "digits_value ds = foldl (\<lambda>acc c. acc * 10 + (of_char c - 48)) 0 ds"

definition stoi :: "string \<Rightarrow> exn + int" where
  "stoi str =
     (let s1 = dropWhile isspace str;
          neg = (s1 \<noteq> [] \<and> hd s1 = CHR ''-'');
          s2 = (if s1 \<noteq> [] \<and> (hd s1 = CHR ''-'' \<or> hd s1 = CHR ''+'') then tl s1 else s1);
          ds = takeWhile isdigit s2;
          v = (if neg then - digits_value ds else digits_value ds)
      in if ds = [] then Inl invalid_argument
         else if v < - (2 ^ 31) \<or> 2 ^ 31 - 1 < v then Inl out_of_range
         else Inr v)"

section \<open>oxen\_common.h: user public keys\<close>

definition MAINNET_USER_PUBKEY_SIZE :: nat where
  "MAINNET_USER_PUBKEY_SIZE = 66"

definition TESTNET_USER_PUBKEY_SIZE :: nat where
  "TESTNET_USER_PUBKEY_SIZE = 64"

text \<open>The global \<open>is_mainnet\<close> is read by \<open>get_user_pubkey_size\<close>; here it is an argument.\<close>

definition get_user_pubkey_size :: "bool \<Rightarrow> nat" where
  "get_user_pubkey_size is_mainnet =
     (if is_mainnet then MAINNET_USER_PUBKEY_SIZE else TESTNET_USER_PUBKEY_SIZE)"

text \<open>
  \<open>oxenmq::is_hex\<close> belongs to the oxenmq library (\<open>oxenmq/hex.h\<close>): it holds when every
  character is one of \<open>0-9\<close>, \<open>a-f\<close>, \<open>A-F\<close> and the length is even (the library's test that
  the text can be given to \<open>from_hex\<close>).
\<close>

definition is_hex_digit :: "char \<Rightarrow> bool" where
  "is_hex_digit c =
     ((CHR ''0'' \<le> c \<and> c \<le> CHR ''9'') \<or> (CHR ''a'' \<le> c \<and> c \<le> CHR ''f'')
      \<or> (CHR ''A'' \<le> c \<and> c \<le> CHR ''F''))"

definition is_hex :: "string \<Rightarrow> bool" where
  "is_hex s = (even (length s) \<and> list_all is_hex_digit s)"

record user_pubkey_t =
  pubkey :: string

text \<open>
  \<open>user_pubkey_t::create(pk, success)\<close>: the returned object, paired with the value left in the
  out-parameter \<open>success\<close>. The default constructor holds the empty string.
\<close>

definition create :: "bool \<Rightarrow> string \<Rightarrow> user_pubkey_t \<times> bool" where
  "create is_mainnet pk =
     (if length pk \<noteq> get_user_pubkey_size is_mainnet \<or> \<not> is_hex pk
      then (\<lparr>pubkey = ''''\<rparr>, False)
      else (\<lparr>pubkey = pk\<rparr>, True))"

definition str :: "user_pubkey_t \<Rightarrow> string" where
  "str u = pubkey u"

section \<open>MonitorData\<close>

text \<open>
  A \<open>std::chrono::steady_clock::time_point\<close> is a signed 64-bit count of the clock's ticks,
  nanoseconds, and \<open>std::chrono::seconds\<close> is a signed 64-bit count of seconds: both are
  \<open>64 word\<close>, read with \<open>sint\<close>. Adding seconds to a time point converts the seconds to ticks
  and adds the counts, in 64-bit arithmetic, which wraps around where the sum leaves the range.
  \<open>steady_clock::now()\<close> is read from the environment, so the reading is an argument.
  A defaulted \<open>ttl\<close> argument is \<open>None\<close>.
\<close>

type_synonym time_point = "64 word"

type_synonym seconds = "64 word"

definition seconds_to_ticks :: "seconds \<Rightarrow> 64 word" where
  "seconds_to_ticks s = s * 1000000000"

definition minutes_to_seconds :: "64 word \<Rightarrow> seconds" where
  "minutes_to_seconds m = m * 60"

definition MONITOR_EXPIRY_TIME :: seconds where
  "MONITOR_EXPIRY_TIME = minutes_to_seconds 65"

record 'conn MonitorData =
  expiry :: time_point
  namespaces :: "16 word list"
  push_conn :: 'conn
  want_data :: bool

definition ttl_or_default :: "seconds option \<Rightarrow> seconds" where
  "ttl_or_default ttl = (case ttl of None \<Rightarrow> MONITOR_EXPIRY_TIME | Some s \<Rightarrow> s)"

definition MonitorData_ctor ::
  "time_point \<Rightarrow> 16 word list \<Rightarrow> 'conn \<Rightarrow> bool \<Rightarrow> seconds option \<Rightarrow> 'conn MonitorData" where
  "MonitorData_ctor now ns conn data ttl =
     \<lparr>expiry = now + seconds_to_ticks (ttl_or_default ttl),
      namespaces = ns, push_conn = conn, want_data = data\<rparr>"

definition reset_expiry ::
  "time_point \<Rightarrow> seconds option \<Rightarrow> 'conn MonitorData \<Rightarrow> 'conn MonitorData" where
  "reset_expiry now ttl m = m\<lparr>expiry := now + seconds_to_ticks (ttl_or_default ttl)\<rparr>"

section \<open>The HTTP connection\<close>

subsection \<open>Requests, responses and the connection's members\<close>

datatype verb = UNKNOWN | DELETE | GET | HEAD | POST | PUT | CONNECT | OPTIONS | TRACE | PATCH

datatype status = ok | bad_request | forbidden | not_found | conflict | internal_server_error

fun status_code :: "status \<Rightarrow> nat" where
  "status_code ok = 200"
| "status_code bad_request = 400"
| "status_code forbidden = 403"
| "status_code not_found = 404"
| "status_code conflict = 409"
| "status_code internal_server_error = 500"

text \<open>
  The request body is a \<open>dynamic_body\<close>: a sequence of buffers. The header fields are looked up
  by name with \<open>request_.find\<close>.
\<close>

record request =
  req_method :: verb
  req_target :: string
  req_version :: nat
  req_fields :: "string \<rightharpoonup> string"
  req_body :: "byte list list"

record response =
  res_version :: nat
  res_keep_alive :: bool
  res_result :: status
  res_content_type :: "string option"
  res_body :: string

text \<open>A stored item, with the members the connection reads and those the store fills.\<close>

record Item =
  item_hash :: string
  item_pub_key :: string
  item_bytes :: "byte list"
  item_timestamp :: nat
  item_ttl :: int

text \<open>
  The members of \<open>http_connection\<close> that request processing reads and writes; \<open>storage_m\<close> is
  the state of the \<open>Storage\<close> the connection refers to.
\<close>

record 'st http_connection =
  request_m :: request
  response_m :: response
  header_m :: "string \<rightharpoonup> string"
  storage_m :: 'st

text \<open>
  What the connection calls and \<open>src/\<close> does not hold: \<open>checkPoW\<close> of \<open>pow.hpp\<close>,
  OpenSSL's \<open>SHA512\<close> (byte \<open>i\<close> of the 64-byte digest it writes to \<open>hashResult\<close>), and the
  two methods of \<open>Storage\<close>, each of which may throw (and then leaves the storage as it
  was). \<open>Storage::retrieve\<close> fills its out-parameter \<open>items\<close> and returns a flag.
\<close>

record 'st environment =
  checkPoW :: "string \<Rightarrow> string \<Rightarrow> string \<Rightarrow> string \<Rightarrow> byte list \<Rightarrow> bool"
  SHA512 :: "byte list \<Rightarrow> nat \<Rightarrow> byte"
  Storage_store :: "'st \<Rightarrow> string \<Rightarrow> string \<Rightarrow> byte list \<Rightarrow> int \<Rightarrow> exn + (bool \<times> 'st)"
  Storage_retrieve :: "'st \<Rightarrow> string \<Rightarrow> string \<Rightarrow> exn + (bool \<times> Item list)"

text \<open>
  The connection as constructed, once \<open>async_read\<close> has filled \<open>request_\<close>: a default
  response (status 200, HTTP/1.1, empty body) and an empty \<open>header_\<close>.
\<close>

definition new_response :: response where
  "new_response = \<lparr>res_version = 11, res_keep_alive = True, res_result = ok,
     res_content_type = None, res_body = []\<rparr>"

definition new_connection :: "request \<Rightarrow> 'st \<Rightarrow> 'st http_connection" where
  "new_connection req st =
     \<lparr>request_m = req, response_m = new_response, header_m = Map.empty, storage_m = st\<rparr>"

text \<open>
  \<open>response_.result(s); response_.set(content_type, t); ostream(response_.body()) << text\<close>:
  the text is appended to the body.
\<close>

definition respond :: "status \<Rightarrow> string \<Rightarrow> string \<Rightarrow> 'st http_connection \<Rightarrow> 'st http_connection" where
  "respond s t text c =
     c\<lparr>response_m := (response_m c)\<lparr>res_result := s, res_content_type := Some t,
          res_body := res_body (response_m c) @ text\<rparr>\<rparr>"

definition set_result :: "status \<Rightarrow> 'st http_connection \<Rightarrow> 'st http_connection" where
  "set_result s c = c\<lparr>response_m := (response_m c)\<lparr>res_result := s\<rparr>\<rparr>"

text \<open>\<open>header_[key]\<close>: the value stored under the key, the empty string when there is none.\<close>

definition header_at :: "'st http_connection \<Rightarrow> string \<Rightarrow> string" where
  "header_at c k = (case header_m c k of None \<Rightarrow> [] | Some v \<Rightarrow> v)"

subsection \<open>parse\_header\<close>

fun parse_header :: "string list \<Rightarrow> 'st http_connection \<Rightarrow> bool \<times> 'st http_connection" where
  "parse_header [] c = (True, c)"
| "parse_header (k # key_list) c =
     (case req_fields (request_m c) k of
        None \<Rightarrow> (False, respond bad_request ''text/plain'' (''Missing field in header : '' @ k) c)
      | Some v \<Rightarrow> parse_header key_list (c\<lparr>header_m := (header_m c)(k \<mapsto> v)\<rparr>))"

subsection \<open>process\_retrieve\<close>

text \<open>
  \<open>catch (std::exception e)\<close> catches by value, so \<open>e.what()\<close> is that of the base class.
\<close>

definition sliced_what :: string where
  "sliced_what = ''std::exception''"

text \<open>The double quote character of the JSON text.\<close>

definition dq :: string where
  "dq = [CHR 0x22]"

definition messages_open :: string where
  "messages_open = ''{'' @ dq @ ''messages'' @ dq @ '': [''"

definition item_json :: "Item \<Rightarrow> string" where
  "item_json item =
     ''{''
     @ (dq @ ''hash'' @ dq @ '':'' @ dq) @ item_hash item @ (dq @ '','')
     @ (dq @ ''timestamp'' @ dq @ '':'' @ dq) @ to_string (item_timestamp item) @ (dq @ '','')
     @ (dq @ ''data'' @ dq @ '':'' @ dq)
     @ to_chars (item_bytes item)
     @ dq
     @ ''},''"

text \<open>
  The body built by the loop over \<open>items\<close>, then \<open>body.pop_back()\<close> (the body is never empty
  there) and the closing \<open>]}\<close>.
\<close>

definition retrieve_body :: "Item list \<Rightarrow> string" where
  "retrieve_body items =
     butlast (foldl (\<lambda>body item. body @ item_json item) messages_open items) @ '']}''"

definition process_retrieve :: "'st environment \<Rightarrow> 'st http_connection \<Rightarrow> exn + 'st http_connection" where
  "process_retrieve env c0 =
     (case parse_header [''pubkey''] c0 of
        (False, c) \<Rightarrow> Inr c
      | (True, c) \<Rightarrow>
          (let last_hash = (case req_fields (request_m c) ''last_hash'' of
                              None \<Rightarrow> [] | Some v \<Rightarrow> v)
           in case Storage_retrieve env (storage_m c) (header_at c ''pubkey'') last_hash of
                Inl e \<Rightarrow> Inr (respond internal_server_error ''text/plain'' sliced_what c)
              | Inr (_, items) \<Rightarrow>
                  Inr (respond ok ''application/json'' (retrieve_body items) c)))"

subsection \<open>process\_store\<close>

definition store_keys :: "string list" where
  "store_keys = [''X-Loki-pow-nonce'', ''X-Loki-ttl'', ''X-Loki-timestamp'', ''X-Loki-recipient'']"

text \<open>
  \<open>messageContents\<close> is constructed with a size, which fills it with that many zero bytes, and
  the four ranges are then inserted at its end.
\<close>

definition messageContents :: "string \<Rightarrow> string \<Rightarrow> string \<Rightarrow> byte list \<Rightarrow> byte list" where
  "messageContents timestamp nonce recipient bytes =
     replicate (length timestamp + length nonce + length recipient + length bytes) 0
     @ to_bytes timestamp @ to_bytes nonce @ to_bytes recipient @ bytes"

definition SHA512_DIGEST_LENGTH :: nat where
  "SHA512_DIGEST_LENGTH = 64"

text \<open>The hexadecimal text written to \<open>hash\<close>, up to its terminating zero.\<close>

definition hash_hex :: "(nat \<Rightarrow> byte) \<Rightarrow> string" where
  "hash_hex hashResult = concat (map (\<lambda>i. hex2 (hashResult i)) [0..<SHA512_DIGEST_LENGTH])"

definition store_hash :: "'st environment \<Rightarrow> string \<Rightarrow> string \<Rightarrow> string \<Rightarrow> byte list \<Rightarrow> string" where
  "store_hash env timestamp nonce recipient bytes =
     hash_hex (SHA512 env (messageContents timestamp nonce recipient bytes))"

definition ok_body :: string where
  "ok_body = ''{ '' @ dq @ ''status'' @ dq @ '': '' @ dq @ ''ok'' @ dq @ '' }''"

definition process_store :: "'st environment \<Rightarrow> 'st http_connection \<Rightarrow> exn + 'st http_connection" where
  "process_store env c0 =
     (case parse_header store_keys c0 of
        (False, c) \<Rightarrow> Inr c
      | (True, c) \<Rightarrow>
          (let bytes = concat (req_body (request_m c));
               nonce = header_at c ''X-Loki-pow-nonce'';
               timestamp = header_at c ''X-Loki-timestamp'';
               ttl_str = header_at c ''X-Loki-ttl'';
               recipient = header_at c ''X-Loki-recipient''
           in if \<not> checkPoW env nonce timestamp ttl_str recipient bytes
              then Inr (respond forbidden ''text/plain'' ''Provided PoW nonce is not valid.'' c)
              else
                (case stoi ttl_str of
                   Inl e \<Rightarrow> Inl e
                 | Inr ttl \<Rightarrow>
                     (case Storage_store env (storage_m c)
                             (store_hash env timestamp nonce recipient bytes) recipient bytes ttl of
                        Inl e \<Rightarrow> Inr (respond internal_server_error ''text/plain'' sliced_what c)
                      | Inr (success, st) \<Rightarrow>
                          (if \<not> success
                           then Inr (respond conflict ''text/plain''
                                       ''hash conflict - resource already present.''
                                       (c\<lparr>storage_m := st\<rparr>))
                           else Inr (respond ok ''application/json'' ok_body
                                       (c\<lparr>storage_m := st\<rparr>)))))))"

subsection \<open>process\_request\<close>

definition process_request :: "'st environment \<Rightarrow> 'st http_connection \<Rightarrow> exn + 'st http_connection" where
  "process_request env c0 =
     (let c = c0\<lparr>response_m := (response_m c0)\<lparr>res_version := req_version (request_m c0),
                                                 res_keep_alive := False\<rparr>\<rparr>;
          target = req_target (request_m c)
      in case req_method (request_m c) of
           GET \<Rightarrow> if target \<noteq> ''/retrieve'' then Inr (set_result not_found c)
                  else process_retrieve env c
         | POST \<Rightarrow> if target \<noteq> ''/store'' then Inr (set_result not_found c)
                   else process_store env c
         | _ \<Rightarrow> Inr (set_result bad_request c))"

text \<open>One request served by a fresh connection.\<close>

definition serve :: "'st environment \<Rightarrow> request \<Rightarrow> 'st \<Rightarrow> exn + 'st http_connection" where
  "serve env req st = process_request env (new_connection req st)"

section \<open>The message store\<close>

text \<open>\<open>Database::DuplicateHandling\<close>, as declared in \<open>Database.hpp\<close>.\<close>

datatype DuplicateHandling = IGNORE | FAIL

text \<open>
  Modelled from the spec: the state of the \<open>Storage\<close> class, which is missing; the messages of
  the table keyed by hash, in the order of their insertion, and the reading of the wall clock.
\<close>

record Storage =
  messages :: "Item list"
  now_ms :: nat

text \<open>
  Modelled from the spec: the outcomes of a store, "store(msg, on_duplicate) -> {stored,
  duplicate, rejected(reason)}", and the bound of the data model, "data: <= 76 800 bytes".
\<close>

datatype store_result = stored | duplicate | rejected string

definition MAX_DATA_SIZE :: nat where
  "MAX_DATA_SIZE = 76800"

text \<open>
  Modelled from the spec: the body of \<open>Storage::store\<close> (\<open>Storage.hpp\<close> and its
  implementation are missing; \<open>Database.hpp\<close> only declares \<open>store\<close>). The spec: a message
  whose data is longer than 76 800 bytes is rejected ("Payload of 76 800 B accepted; 76 801 B
  rejected"); otherwise "Atomic insert keyed by hash. duplicate returns on second store with
  matching hash", and a message carries the wall-clock time of its admission. Nothing but a
  stored message changes the state. The capacity limit is left out: the spec gives no page
  accounting to model it by.
\<close>

definition store_message ::
  "Storage \<Rightarrow> string \<Rightarrow> string \<Rightarrow> byte list \<Rightarrow> int \<Rightarrow> store_result \<times> Storage" where
  "store_message st hash pubKey bytes ttl =
     (if MAX_DATA_SIZE < length bytes then (rejected ''data too large'', st)
      else if hash \<in> set (map item_hash (messages st)) then (duplicate, st)
      else (stored, st\<lparr>messages := messages st
              @ [\<lparr>item_hash = hash, item_pub_key = pubKey, item_bytes = bytes,
                  item_timestamp = now_ms st, item_ttl = ttl\<rparr>]\<rparr>))"

text \<open>
  Modelled from the spec: the flag that \<open>Storage::store\<close> returns. The spec: "ignore coalesces
  it [the duplicate] to success, fail reports it"; a rejected message is not a success either.
\<close>

definition store ::
  "Storage \<Rightarrow> string \<Rightarrow> string \<Rightarrow> byte list \<Rightarrow> int \<Rightarrow> DuplicateHandling \<Rightarrow> bool \<times> Storage" where
  "store st hash pubKey bytes ttl behaviour =
     (case store_message st hash pubKey bytes ttl of
        (stored, st') \<Rightarrow> (True, st')
      | (duplicate, st') \<Rightarrow> (case behaviour of IGNORE \<Rightarrow> (True, st') | FAIL \<Rightarrow> (False, st'))
      | (rejected reason, st') \<Rightarrow> (False, st'))"

text \<open>The key that orders retrieval: the timestamp, then the hash.\<close>

definition message_key :: "Item \<Rightarrow> nat \<times> string" where
  "message_key m = (item_timestamp m, item_hash m)"

text \<open>
  Modelled from the spec: the body of \<open>Storage::retrieve\<close> (missing, as above). The spec:
  "Ordering is strictly ascending by (timestamp_ms, hash); last_hash, if supplied and present,
  acts as an exclusive lower bound on that key; limit default 100".
\<close>

definition retrieve :: "Storage \<Rightarrow> string \<Rightarrow> string \<Rightarrow> bool \<times> Item list" where
  "retrieve st pubKey lastHash =
     (let mine = sort_key message_key (filter (\<lambda>m. item_pub_key m = pubKey) (messages st));
          later = (if lastHash = [] then mine
                   else case find (\<lambda>m. item_hash m = lastHash) mine of
                          None \<Rightarrow> mine
                        | Some l \<Rightarrow> filter (\<lambda>m. message_key l < message_key m) mine)
      in (True, take 100 later))"

text \<open>The connection's environment over this store; the handler calls \<open>store\<close> with four
  arguments, so with the default \<open>FAIL\<close>.\<close>

definition Storage_env ::
  "(string \<Rightarrow> string \<Rightarrow> string \<Rightarrow> string \<Rightarrow> byte list \<Rightarrow> bool) \<Rightarrow> (byte list \<Rightarrow> nat \<Rightarrow> byte)
    \<Rightarrow> Storage environment" where
  "Storage_env pow sha =
     \<lparr>checkPoW = pow, SHA512 = sha,
      Storage_store = (\<lambda>st hash pubKey bytes ttl. Inr (store st hash pubKey bytes ttl FAIL)),
      Storage_retrieve = (\<lambda>st pubKey lastHash. Inr (retrieve st pubKey lastHash))\<rparr>"

section \<open>Observations and sample inputs\<close>

text \<open>What a served request leaves behind: the status and the stored messages.\<close>

definition response_status :: "exn + 'st http_connection \<Rightarrow> status option" where
  "response_status r = (case r of Inl e \<Rightarrow> None | Inr c \<Rightarrow> Some (res_result (response_m c)))"

definition stored_messages :: "exn + Storage http_connection \<Rightarrow> Item list" where
  "stored_messages r = (case r of Inl e \<Rightarrow> [] | Inr c \<Rightarrow> messages (storage_m c))"

text \<open>
  Stand-ins for the two functions of other libraries, to run the handler on sample requests:
  a proof-of-work test that refuses exactly the nonce \<open>0\<close>, and a digest whose every byte is the
  length of its input.
\<close>

definition sample_checkPoW :: "string \<Rightarrow> string \<Rightarrow> string \<Rightarrow> string \<Rightarrow> byte list \<Rightarrow> bool" where
  "sample_checkPoW nonce timestamp ttl recipient bytes = (nonce \<noteq> ''0'')"

definition sample_SHA512 :: "byte list \<Rightarrow> nat \<Rightarrow> byte" where
  "sample_SHA512 msg i = of_nat (length msg)"

definition sample_env :: "Storage environment" where
  "sample_env = Storage_env sample_checkPoW sample_SHA512"

definition empty_Storage :: Storage where
  "empty_Storage = \<lparr>messages = [], now_ms = 1000\<rparr>"

definition store_fields :: "string \<Rightarrow> string \<Rightarrow> string \<Rightarrow> string \<Rightarrow> (string \<rightharpoonup> string)" where
  "store_fields nonce ttl timestamp recipient =
     [''X-Loki-pow-nonce'' \<mapsto> nonce, ''X-Loki-ttl'' \<mapsto> ttl,
      ''X-Loki-timestamp'' \<mapsto> timestamp, ''X-Loki-recipient'' \<mapsto> recipient]"

definition store_request :: "string \<Rightarrow> byte list \<Rightarrow> request" where
  "store_request nonce payload =
     \<lparr>req_method = POST, req_target = ''/store'', req_version = 11,
      req_fields = store_fields nonce ''60'' ''17'' ''05ab'', req_body = [payload]\<rparr>"


definition retrieve_request :: request where
  "retrieve_request =
     \<lparr>req_method = GET, req_target = ''/retrieve'', req_version = 11,
      req_fields = [''pubkey'' \<mapsto> ''05ab''], req_body = []\<rparr>"

definition other_request :: "verb \<Rightarrow> string \<Rightarrow> request" where
  "other_request m t =
     \<lparr>req_method = m, req_target = t, req_version = 11, req_fields = Map.empty, req_body = []\<rparr>"

text \<open>The connection once \<open>parse_header\<close> has copied the four store headers into \<open>header_\<close>.\<close>

definition parsed_store ::
  "string \<Rightarrow> string \<Rightarrow> string \<Rightarrow> string \<Rightarrow> 'st http_connection \<Rightarrow> 'st http_connection" where
  "parsed_store nonce ttl timestamp recipient c =
     c\<lparr>header_m := (header_m c)(''X-Loki-pow-nonce'' \<mapsto> nonce, ''X-Loki-ttl'' \<mapsto> ttl,
          ''X-Loki-timestamp'' \<mapsto> timestamp, ''X-Loki-recipient'' \<mapsto> recipient)\<rparr>"

text \<open>
  A request routed to \<open>process_store\<close> that carries the four headers, with their values.
\<close>

definition is_store_request :: "request \<Rightarrow> string \<Rightarrow> string \<Rightarrow> string \<Rightarrow> string \<Rightarrow> bool" where
  "is_store_request req nonce ttl timestamp recipient =
     (req_method req = POST \<and> req_target req = ''/store''
      \<and> req_fields req ''X-Loki-pow-nonce'' = Some nonce
      \<and> req_fields req ''X-Loki-ttl'' = Some ttl
      \<and> req_fields req ''X-Loki-timestamp'' = Some timestamp
      \<and> req_fields req ''X-Loki-recipient'' = Some recipient)"

text \<open>
  The connection when \<open>process_request\<close> dispatches: the response has the request's version and
  \<open>keep_alive(false)\<close>.
\<close>

definition started :: "request \<Rightarrow> 'st \<Rightarrow> 'st http_connection" where
  "started req st =
     (new_connection req st)\<lparr>response_m := new_response\<lparr>res_version := req_version req,
        res_keep_alive := False\<rparr>\<rparr>"


section \<open>Public keys and monitor data: the claims\<close>

lemma sint_add_no_overflow:
  fixes a :: "64 word"
  assumes "sint a \<le> 2 ^ 63 - 1 - 3900000000000"
  shows "sint (a + 3900000000000) = sint a + 3900000000000"
proof -
  have lo: "- (2 ^ 63) \<le> sint a"
    using sint_ge [of a] by simp
  have "sint (a + 3900000000000) = signed_take_bit 63 (sint a + sint (3900000000000 :: 64 word))"
    by (simp add: sint_word_ariths)
  also have "sint (3900000000000 :: 64 word) = 3900000000000"
    by simp
  also have "signed_take_bit 63 (sint a + 3900000000000) = sint a + 3900000000000"
    by (rule signed_take_bit_int_eq_self) (use lo assms in simp_all)
  finally show ?thesis .
qed

text \<open>
  Claim C8. \<open>user_pubkey_t::create(pk, success)\<close> leaves \<open>success\<close> true and returns an object
  whose \<open>str()\<close> is \<open>pk\<close> exactly when \<open>pk\<close> consists of hexadecimal characters and has the
  network's length: 66 on mainnet, 64 otherwise.
\<close>

theorem create_succeeds_iff:
  "(snd (create is_mainnet pk) \<and> str (fst (create is_mainnet pk)) = pk)
     = (length pk = (if is_mainnet then 66 else 64) \<and> list_all is_hex_digit pk)"
  by (auto simp: create_def str_def is_hex_def get_user_pubkey_size_def
      MAINNET_USER_PUBKEY_SIZE_def TESTNET_USER_PUBKEY_SIZE_def)

theorem create_succeeds_iff_witness:
  "snd (create False ''00112233445566778899aabbccddeeffAABBCCDDEEFF00112233445566778899'')
   \<and> str (fst (create False ''00112233445566778899aabbccddeeffAABBCCDDEEFF00112233445566778899''))
       = ''00112233445566778899aabbccddeeffAABBCCDDEEFF00112233445566778899''
   \<and> \<not> (snd (create True ''00112233445566778899aabbccddeeffAABBCCDDEEFF00112233445566778899'')
        \<and> str (fst (create True ''00112233445566778899aabbccddeeffAABBCCDDEEFF00112233445566778899''))
            = ''00112233445566778899aabbccddeeffAABBCCDDEEFF00112233445566778899'')"
  using create_succeeds_iff [of False "''00112233445566778899aabbccddeeffAABBCCDDEEFF00112233445566778899''"]
    create_succeeds_iff [of True "''00112233445566778899aabbccddeeffAABBCCDDEEFF00112233445566778899''"]
  by (simp add: is_hex_digit_def)

text \<open>
  Claim C9. With the default TTL, the constructor of \<open>MonitorData\<close> and \<open>reset_expiry\<close> both set
  the expiry to the steady-clock reading plus 65 minutes, that is 65 * 60 * 1000000000 ticks:
  in the 64-bit arithmetic of the clock for every reading, and as a sum of integers for every
  reading that leaves room for 65 minutes below the largest time point.
\<close>

theorem monitor_expiry_default:
  "expiry (MonitorData_ctor now ns conn data None) = now + 3900000000000
   \<and> expiry (reset_expiry now None m) = now + 3900000000000
   \<and> (sint now \<le> 2 ^ 63 - 1 - 65 * 60 * 1000000000 \<longrightarrow>
        sint (expiry (MonitorData_ctor now ns conn data None)) = sint now + 65 * 60 * 1000000000
        \<and> sint (expiry (reset_expiry now None m)) = sint now + 65 * 60 * 1000000000)"
proof -
  have e: "expiry (MonitorData_ctor now ns conn data None) = now + 3900000000000"
    "expiry (reset_expiry now None m) = now + 3900000000000"
    by (simp_all add: MonitorData_ctor_def reset_expiry_def ttl_or_default_def
        MONITOR_EXPIRY_TIME_def minutes_to_seconds_def seconds_to_ticks_def)
  have "sint (now + 3900000000000) = sint now + 3900000000000"
    if "sint now \<le> 2 ^ 63 - 1 - 3900000000000"
    using that by (rule sint_add_no_overflow)
  with e show ?thesis by simp
qed

theorem monitor_expiry_default_witness:
  "expiry (MonitorData_ctor 1000 [0, 1] (7::nat) True None) = 3900000001000
   \<and> sint (expiry (MonitorData_ctor 1000 [0, 1] (7::nat) True None)) = 3900000001000
   \<and> sint (expiry (reset_expiry 1000 None
        \<lparr>expiry = 5, namespaces = [0, 1], push_conn = (7::nat), want_data = True\<rparr>))
      = 3900000001000"
  using monitor_expiry_default [of 1000 "[0, 1]" "7::nat" True
      "\<lparr>expiry = 5, namespaces = [0, 1], push_conn = (7::nat), want_data = True\<rparr>"]
  by simp

text \<open>
  Claim C10. \<open>reset_expiry\<close> changes the expiry only: the namespaces, the push connection and
  the \<open>want_data\<close> flag are those of the value it was called on.
\<close>

theorem reset_expiry_frame:
  "namespaces (reset_expiry now ttl m) = namespaces m
   \<and> push_conn (reset_expiry now ttl m) = push_conn m
   \<and> want_data (reset_expiry now ttl m) = want_data m
   \<and> MonitorData.more (reset_expiry now ttl m) = MonitorData.more m"
  by (simp add: reset_expiry_def)


section \<open>The handlers: evaluation lemmas\<close>

lemma started_fields:
  "request_m (started req st) = req"
  "storage_m (started req st) = st"
  "res_body (response_m (started req st)) = []"
  by (simp_all add: started_def new_connection_def new_response_def)

lemma respond_fields:
  "res_result (response_m (respond s t text c)) = s"
  "res_body (response_m (respond s t text c)) = res_body (response_m c) @ text"
  "storage_m (respond s t text c) = storage_m c"
  "request_m (respond s t text c) = request_m c"
  by (simp_all add: respond_def)

lemma parse_header_store_keys:
  assumes "req_fields (request_m c) ''X-Loki-pow-nonce'' = Some nonce"
    and "req_fields (request_m c) ''X-Loki-ttl'' = Some ttl"
    and "req_fields (request_m c) ''X-Loki-timestamp'' = Some timestamp"
    and "req_fields (request_m c) ''X-Loki-recipient'' = Some recipient"
  shows "parse_header store_keys c = (True, parsed_store nonce ttl timestamp recipient c)"
  using assms by (simp add: store_keys_def parsed_store_def)

lemma header_at_parsed_store:
  "header_at (parsed_store nonce ttl timestamp recipient c) ''X-Loki-pow-nonce'' = nonce"
  "header_at (parsed_store nonce ttl timestamp recipient c) ''X-Loki-ttl'' = ttl"
  "header_at (parsed_store nonce ttl timestamp recipient c) ''X-Loki-timestamp'' = timestamp"
  "header_at (parsed_store nonce ttl timestamp recipient c) ''X-Loki-recipient'' = recipient"
  by (simp_all add: header_at_def parsed_store_def)

lemma parsed_store_fields:
  "request_m (parsed_store nonce ttl timestamp recipient c) = request_m c"
  "response_m (parsed_store nonce ttl timestamp recipient c) = response_m c"
  "storage_m (parsed_store nonce ttl timestamp recipient c) = storage_m c"
  by (simp_all add: parsed_store_def)

text \<open>What \<open>parse_header\<close> returns, for any list of keys.\<close>

lemma parse_header_result:
  "parse_header ks c = (b, c') \<Longrightarrow>
     (b \<longrightarrow> (\<forall>k \<in> set ks. req_fields (request_m c) k \<noteq> None))
     \<and> (\<not> b \<longrightarrow> res_result (response_m c') = bad_request)
     \<and> storage_m c' = storage_m c \<and> request_m c' = request_m c"
proof (induction ks arbitrary: c)
  case Nil
  then show ?case by simp
next
  case (Cons k ks)
  show ?case
  proof (cases "req_fields (request_m c) k")
    case None
    with Cons.prems show ?thesis by (auto simp: respond_def)
  next
    case (Some v)
    with Cons.prems have "parse_header ks (c\<lparr>header_m := (header_m c)(k \<mapsto> v)\<rparr>) = (b, c')"
      by simp
    from Cons.IH [OF this] Some show ?thesis by simp
  qed
qed

lemma serve_post_store:
  "req_method req = POST \<Longrightarrow> req_target req = ''/store'' \<Longrightarrow>
   serve env req st = process_store env (started req st)"
  by (simp add: serve_def process_request_def new_connection_def started_def Let_def)

lemma is_store_requestD:
  assumes "is_store_request req nonce ttl timestamp recipient"
  shows "req_method req = POST" and "req_target req = ''/store''"
    and "req_fields (request_m (started req st)) ''X-Loki-pow-nonce'' = Some nonce"
    and "req_fields (request_m (started req st)) ''X-Loki-ttl'' = Some ttl"
    and "req_fields (request_m (started req st)) ''X-Loki-timestamp'' = Some timestamp"
    and "req_fields (request_m (started req st)) ''X-Loki-recipient'' = Some recipient"
  using assms by (simp_all add: is_store_request_def started_fields)

text \<open>The three ways past \<open>parse_header\<close>: the proof of work is refused, \<open>std::stoi\<close> throws,
  or the storage is called.\<close>

lemma serve_store_rejected:
  assumes "is_store_request req nonce ttl timestamp recipient"
    and "\<not> checkPoW env nonce timestamp ttl recipient (concat (req_body req))"
  shows "serve env req st =
           Inr (respond forbidden ''text/plain'' ''Provided PoW nonce is not valid.''
                  (parsed_store nonce ttl timestamp recipient (started req st)))"
  using assms(2)
  by (simp add: serve_post_store [OF is_store_requestD(1,2) [OF assms(1)]] process_store_def
      parse_header_store_keys [OF is_store_requestD(3-6) [OF assms(1)]]
      header_at_parsed_store parsed_store_fields started_fields Let_def)

lemma serve_store_stoi_throws:
  assumes "is_store_request req nonce ttl timestamp recipient"
    and "checkPoW env nonce timestamp ttl recipient (concat (req_body req))"
    and "stoi ttl = Inl e"
  shows "serve env req st = Inl e"
  using assms(2,3)
  by (simp add: serve_post_store [OF is_store_requestD(1,2) [OF assms(1)]] process_store_def
      parse_header_store_keys [OF is_store_requestD(3-6) [OF assms(1)]]
      header_at_parsed_store parsed_store_fields started_fields Let_def)

lemma serve_store_admitted:
  assumes "is_store_request req nonce ttl timestamp recipient"
    and "checkPoW env nonce timestamp ttl recipient (concat (req_body req))"
    and "stoi ttl = Inr t"
  shows "serve env req st =
           (case Storage_store env st
                   (store_hash env timestamp nonce recipient (concat (req_body req)))
                   recipient (concat (req_body req)) t of
              Inl e \<Rightarrow> Inr (respond internal_server_error ''text/plain'' sliced_what
                             (parsed_store nonce ttl timestamp recipient (started req st)))
            | Inr (success, st') \<Rightarrow>
                (if \<not> success
                 then Inr (respond conflict ''text/plain'' ''hash conflict - resource already present.''
                             ((parsed_store nonce ttl timestamp recipient (started req st))
                                \<lparr>storage_m := st'\<rparr>))
                 else Inr (respond ok ''application/json'' ok_body
                             ((parsed_store nonce ttl timestamp recipient (started req st))
                                \<lparr>storage_m := st'\<rparr>))))"
  using assms(2,3)
  by (simp add: serve_post_store [OF is_store_requestD(1,2) [OF assms(1)]] process_store_def
      parse_header_store_keys [OF is_store_requestD(3-6) [OF assms(1)]]
      header_at_parsed_store parsed_store_fields started_fields Let_def)

lemma serve_store_missing:
  assumes "req_method req = POST" and "req_target req = ''/store''"
    and "k \<in> set store_keys" and "req_fields req k = None"
  shows "\<exists>c. serve env req st = Inr c \<and> res_result (response_m c) = bad_request \<and> storage_m c = st"
proof -
  obtain b c' where p: "parse_header store_keys (started req st) = (b, c')"
    by (cases "parse_header store_keys (started req st)")
  from parse_header_result [OF p] assms(3,4)
  have "\<not> b" and "res_result (response_m c') = bad_request" and "storage_m c' = st"
    by (auto simp: started_fields)
  then show ?thesis
    using p by (simp add: serve_post_store [OF assms(1,2)] process_store_def)
qed

lemma store_request_cases:
  assumes "req_method req = POST" and "req_target req = ''/store''"
  shows "(\<exists>k \<in> set store_keys. req_fields req k = None)
         \<or> (\<exists>nonce ttl timestamp recipient. is_store_request req nonce ttl timestamp recipient)"
  using assms by (auto simp: store_keys_def is_store_request_def)

subsection \<open>The hexadecimal text of a digest\<close>

lemma unat_and_15: "unat ((b::byte) AND 15) < 16"
proof -
  have "unat (b AND 15) \<le> unat (15 :: byte)"
    by (rule word_and_le1 [THEN word_le_nat_alt [THEN iffD1]])
  then show ?thesis by simp
qed

lemma unat_drop_4: "unat (drop_bit 4 (b::byte)) < 16"
proof -
  have "unat b < 256"
    using unsigned_less [of b, where ?'a = nat] by simp
  moreover have "unat (drop_bit 4 b) = unat b div 16"
    by (simp add: drop_bit_eq_div unat_div_distrib)
  ultimately show ?thesis by simp
qed

lemma hex_digits_nth: "n < 16 \<Longrightarrow> hex_digits ! n \<in> set hex_digits"
  by (rule nth_mem) (simp add: hex_digits_def)

lemma hex2_set: "set (hex2 b) \<subseteq> set hex_digits"
  by (simp add: hex2_def hex_digits_nth unat_and_15 unat_drop_4)

lemma concat_map_length:
  "(\<And>x. length (f x) = k) \<Longrightarrow> length (concat (map f xs)) = k * length xs"
  by (induction xs) simp_all

lemma hash_hex_length: "length (hash_hex h) = 128"
  by (simp add: hash_hex_def SHA512_DIGEST_LENGTH_def concat_map_length [where k = 2] hex2_def)

lemma hash_hex_set: "set (hash_hex h) \<subseteq> set hex_digits"
  using hex2_set by (auto simp: hash_hex_def)

text \<open>Read back, the text that \<open>sprintf\<close> wrote is the digest.\<close>

lemma hex_value_table: "list_all (\<lambda>n. hex_value (hex_digits ! n) = n) [0..<16]"
  by (simp add: upt_conv_Cons hex_value_def hex_digits_def)

lemma hex_value_hex_digits: "n < 16 \<Longrightarrow> hex_value (hex_digits ! n) = n"
  using hex_value_table by (simp add: list_all_iff)

lemma unat_drop_4_eq: "unat (drop_bit 4 (b::byte)) = unat b div 16"
  by (simp add: drop_bit_eq_div unat_div_distrib)

lemma unat_and_15_eq: "unat ((b::byte) AND 15) = unat b mod 16"
proof -
  have "b AND 15 = take_bit 4 b"
    by (simp add: take_bit_eq_mask mask_eq_exp_minus_1)
  then have "unat (b AND 15) = take_bit 4 (unat b)"
    by (simp only: unsigned_take_bit_eq)
  then show ?thesis
    by (simp add: take_bit_eq_mod)
qed

lemma of_nat_nibbles: "of_nat (16 * unat (drop_bit 4 (b::byte)) + unat (b AND 15)) = b"
proof -
  have "16 * unat (drop_bit 4 b) + unat (b AND 15) = unat b"
    unfolding unat_drop_4_eq unat_and_15_eq by simp
  then have "(of_nat (16 * unat (drop_bit 4 b) + unat (b AND 15)) :: byte) = of_nat (unat b)"
    by (rule arg_cong)
  then show ?thesis
    by (simp only: of_nat_unat unsigned_word_eqI ucast_id)
qed

lemma from_hex_hex2: "from_hex (hex2 b @ cs) = b # from_hex cs"
proof -
  have hi: "hex_value (hex_digits ! unat (drop_bit 4 b)) = unat (drop_bit 4 b)"
    by (rule hex_value_hex_digits) (rule unat_drop_4)
  have lo: "hex_value (hex_digits ! unat (b AND 15)) = unat (b AND 15)"
    by (rule hex_value_hex_digits) (rule unat_and_15)
  show ?thesis
    by (simp only: hex2_def append_Cons append_Nil from_hex.simps hi lo of_nat_nibbles)
qed

lemma from_hex_concat_hex2: "from_hex (concat (map (\<lambda>i. hex2 (d i)) xs)) = map d xs"
  by (induction xs) (simp_all add: from_hex_hex2)

lemma from_hex_hash_hex: "from_hex (hash_hex d) = map d [0..<64]"
  by (simp add: hash_hex_def SHA512_DIGEST_LENGTH_def from_hex_concat_hex2)

lemma messageContents_ends:
  "\<exists>pre. messageContents timestamp nonce recipient bytes
          = pre @ to_bytes timestamp @ to_bytes nonce @ to_bytes recipient @ bytes"
  by (simp add: messageContents_def)

subsection \<open>The store and the sample inputs\<close>

lemma store_FAIL:
  "store st h pk bytes t FAIL =
     (if 76800 < length bytes \<or> h \<in> set (map item_hash (messages st)) then (False, st)
      else (True, st\<lparr>messages := messages st
              @ [\<lparr>item_hash = h, item_pub_key = pk, item_bytes = bytes,
                  item_timestamp = now_ms st, item_ttl = t\<rparr>]\<rparr>))"
  by (simp add: store_def store_message_def MAX_DATA_SIZE_def)

lemma Storage_env_fields:
  "checkPoW (Storage_env pow sha) = pow"
  "SHA512 (Storage_env pow sha) = sha"
  "Storage_store (Storage_env pow sha) st h pk bytes t = Inr (store st h pk bytes t FAIL)"
  "Storage_retrieve (Storage_env pow sha) st pk lh = Inr (retrieve st pk lh)"
  by (simp_all add: Storage_env_def)

lemma sample_is_store_request:
  "is_store_request (store_request nonce payload) nonce ''60'' ''17'' ''05ab''"
  by (simp add: is_store_request_def store_request_def store_fields_def)

lemma sample_req_body: "concat (req_body (store_request nonce payload)) = payload"
  by (simp add: store_request_def)

lemma stoi_60: "stoi ''60'' = Inr 60"
  by (simp add: stoi_def isspace_def isdigit_def digits_value_def Let_def)

lemma length_to_bytes: "length (to_bytes s) = length s"
  by (simp add: to_bytes_def)

lemma retrieve_body_Nil: "retrieve_body [] = ''{'' @ dq @ ''messages'' @ dq @ '': ]}''"
  by (simp add: retrieve_body_def messages_open_def dq_def)


lemma sample_served:
  assumes "is_store_request req nonce ''60'' timestamp recipient" and "nonce \<noteq> ''0''"
  shows "serve sample_env req st =
           (case store st (store_hash sample_env timestamp nonce recipient (concat (req_body req)))
                   recipient (concat (req_body req)) 60 FAIL of
              (success, st') \<Rightarrow>
                (if \<not> success
                 then Inr (respond conflict ''text/plain'' ''hash conflict - resource already present.''
                             ((parsed_store nonce ''60'' timestamp recipient (started req st))
                                \<lparr>storage_m := st'\<rparr>))
                 else Inr (respond ok ''application/json'' ok_body
                             ((parsed_store nonce ''60'' timestamp recipient (started req st))
                                \<lparr>storage_m := st'\<rparr>))))"
proof -
  have "checkPoW sample_env nonce timestamp ''60'' recipient (concat (req_body req))"
    using assms(2) by (simp add: sample_env_def Storage_env_fields sample_checkPoW_def)
  from serve_store_admitted [OF assms(1) this stoi_60]
  show ?thesis
    by (simp add: sample_env_def Storage_env_fields)
qed



lemma sample_store_status:
  "length payload \<le> 76800 \<Longrightarrow>
   response_status (serve sample_env (store_request ''7'' payload) empty_Storage) = Some ok"
  by (simp add: sample_served [OF sample_is_store_request] sample_req_body store_FAIL
      empty_Storage_def response_status_def respond_fields)

lemma sample_store_messages:
  "length payload \<le> 76800 \<Longrightarrow>
   stored_messages (serve sample_env (store_request ''7'' payload) empty_Storage) =
     [\<lparr>item_hash = store_hash sample_env ''17'' ''7'' ''05ab'' payload, item_pub_key = ''05ab'',
       item_bytes = payload, item_timestamp = 1000, item_ttl = 60\<rparr>]"
  by (simp add: sample_served [OF sample_is_store_request] sample_req_body store_FAIL
      empty_Storage_def stored_messages_def respond_fields)


section \<open>The store handler: the claims\<close>

text \<open>
  Claim C1, as amended. The claim gives the stored hash as 43 bytes of base64 of a 32-byte
  blake2b digest over account, namespace, timestamp and data. The handler computes something
  else: whenever \<open>POST /store\<close> admits a message (status 200, over the modelled store), the
  message is stored under a text of 128 lowercase hexadecimal characters which, read back two
  characters per byte, is the 64-byte SHA-512 digest of the handler's message buffer; that
  buffer ends with the timestamp, the nonce, the recipient and the body, in this order; no
  message was stored under that hash before; and the stored message holds the recipient and
  the body.
\<close>

theorem stored_hash_is_sha512_hex:
  assumes "req_method req = POST" and "req_target req = ''/store''"
    and "response_status (serve (Storage_env pow sha) req st) = Some ok"
  shows "\<exists>nonce ttl timestamp recipient t h.
           is_store_request req nonce ttl timestamp recipient
           \<and> stoi ttl = Inr t
           \<and> length h = 128 \<and> set h \<subseteq> set ''0123456789abcdef''
           \<and> from_hex h
               = map (sha (messageContents timestamp nonce recipient (concat (req_body req)))) [0..<64]
           \<and> (\<exists>pre. messageContents timestamp nonce recipient (concat (req_body req))
                  = pre @ to_bytes timestamp @ to_bytes nonce @ to_bytes recipient
                      @ concat (req_body req))
           \<and> h \<notin> set (map item_hash (messages st))
           \<and> stored_messages (serve (Storage_env pow sha) req st) = messages st
                @ [\<lparr>item_hash = h, item_pub_key = recipient, item_bytes = concat (req_body req),
                    item_timestamp = now_ms st, item_ttl = t\<rparr>]"
proof -
  let ?env = "Storage_env pow sha"
  from store_request_cases [OF assms(1,2)]
  show ?thesis
  proof
    assume "\<exists>k \<in> set store_keys. req_fields req k = None"
    then obtain k where "k \<in> set store_keys" "req_fields req k = None" by blast
    from serve_store_missing [OF assms(1,2) this, of ?env st] assms(3)
    show ?thesis by (auto simp: response_status_def)
  next
    assume "\<exists>nonce ttl timestamp recipient. is_store_request req nonce ttl timestamp recipient"
    then obtain nonce ttl timestamp recipient
      where r: "is_store_request req nonce ttl timestamp recipient" by blast
    let ?bytes = "concat (req_body req)"
    let ?buf = "messageContents timestamp nonce recipient ?bytes"
    let ?h = "hash_hex (sha ?buf)"
    have pow: "checkPoW ?env nonce timestamp ttl recipient ?bytes"
    proof (rule ccontr)
      assume "\<not> checkPoW ?env nonce timestamp ttl recipient ?bytes"
      from serve_store_rejected [OF r this, of st] assms(3)
      show False by (simp add: response_status_def respond_fields)
    qed
    obtain t where t: "stoi ttl = Inr t"
    proof (cases "stoi ttl")
      case (Inl e)
      from serve_store_stoi_throws [OF r pow this, of st] assms(3)
      show ?thesis by (simp add: response_status_def)
    next
      case (Inr t)
      with that show ?thesis .
    qed
    have admitted: "\<not> (76800 < length ?bytes \<or> ?h \<in> set (map item_hash (messages st)))"
    proof
      assume "76800 < length ?bytes \<or> ?h \<in> set (map item_hash (messages st))"
      then have "response_status (serve ?env req st) = Some conflict"
        by (simp add: serve_store_admitted [OF r pow t] Storage_env_fields store_hash_def
            store_FAIL respond_fields response_status_def)
      with assms(3) show False by simp
    qed
    then have fresh: "?h \<notin> set (map item_hash (messages st))" by simp
    from admitted have "stored_messages (serve ?env req st) = messages st
                @ [\<lparr>item_hash = ?h, item_pub_key = recipient, item_bytes = ?bytes,
                    item_timestamp = now_ms st, item_ttl = t\<rparr>]"
      by (simp add: serve_store_admitted [OF r pow t] Storage_env_fields store_hash_def
          store_FAIL respond_fields stored_messages_def)
    moreover have "set ?h \<subseteq> set ''0123456789abcdef''"
      using hash_hex_set [of "sha ?buf"] by (simp only: hex_digits_def)
    moreover note r t fresh hash_hex_length [of "sha ?buf"] from_hex_hash_hex [of "sha ?buf"]
      messageContents_ends [of timestamp nonce recipient ?bytes]
    ultimately show ?thesis by blast
  qed
qed

theorem stored_hash_is_sha512_hex_witness:
  "\<exists>nonce ttl timestamp recipient t h.
     is_store_request (store_request ''7'' [1, 2, 3]) nonce ttl timestamp recipient
     \<and> stoi ttl = Inr t
     \<and> length h = 128 \<and> set h \<subseteq> set ''0123456789abcdef''
     \<and> from_hex h
         = map (sample_SHA512 (messageContents timestamp nonce recipient
                  (concat (req_body (store_request ''7'' [1, 2, 3]))))) [0..<64]
     \<and> (\<exists>pre. messageContents timestamp nonce recipient
                  (concat (req_body (store_request ''7'' [1, 2, 3])))
            = pre @ to_bytes timestamp @ to_bytes nonce @ to_bytes recipient
                @ concat (req_body (store_request ''7'' [1, 2, 3])))
     \<and> h \<notin> set (map item_hash (messages empty_Storage))
     \<and> stored_messages (serve (Storage_env sample_checkPoW sample_SHA512)
          (store_request ''7'' [1, 2, 3]) empty_Storage)
        = messages empty_Storage
          @ [\<lparr>item_hash = h, item_pub_key = recipient,
              item_bytes = concat (req_body (store_request ''7'' [1, 2, 3])),
              item_timestamp = now_ms empty_Storage, item_ttl = t\<rparr>]"
proof (rule stored_hash_is_sha512_hex)
  show "req_method (store_request ''7'' [1, 2, 3]) = POST"
    by (simp add: store_request_def)
  show "req_target (store_request ''7'' [1, 2, 3]) = ''/store''"
    by (simp add: store_request_def)
  show "response_status (serve (Storage_env sample_checkPoW sample_SHA512)
          (store_request ''7'' [1, 2, 3]) empty_Storage) = Some ok"
    using sample_store_status [of "[1, 2, 3]"] by (simp add: sample_env_def)
qed

theorem stored_hash_counterexample:
  "response_status (serve sample_env (store_request ''7'' [1, 2, 3]) empty_Storage) = Some ok
   \<and> map (\<lambda>m. length (item_hash m))
        (stored_messages (serve sample_env (store_request ''7'' [1, 2, 3]) empty_Storage)) = [128]"
  by (simp add: sample_store_status sample_store_messages store_hash_def hash_hex_length)


text \<open>
  Claim C2. The claim: the SHA-512 input is exactly timestamp, nonce, recipient and message
  bytes, in that order, and nothing else. The buffer the handler hashes is first built with the
  total length, hence filled with that many zero bytes, and the four parts are appended after
  them: for timestamp \<open>1\<close>, nonce \<open>a\<close>, recipient \<open>b\<close> and body \<open>c\<close> it is four zero bytes
  followed by \<open>1abc\<close>. The buffer is the claimed concatenation only when all four parts are
  empty.
\<close>

theorem hashed_input_has_zero_prefix:
  "messageContents ''1'' ''a'' ''b'' [0x63] = [0, 0, 0, 0, 0x31, 0x61, 0x62, 0x63]
   \<and> (messageContents timestamp nonce recipient bytes
        = to_bytes timestamp @ to_bytes nonce @ to_bytes recipient @ bytes)
       = (timestamp = [] \<and> nonce = [] \<and> recipient = [] \<and> bytes = [])"
proof
  show "messageContents ''1'' ''a'' ''b'' [0x63] = [0, 0, 0, 0, 0x31, 0x61, 0x62, 0x63]"
    by (simp add: messageContents_def to_bytes_def numeral_eq_Suc)
next
  let ?n = "length timestamp + length nonce + length recipient + length bytes"
  let ?cat = "to_bytes timestamp @ to_bytes nonce @ to_bytes recipient @ bytes"
  have len: "length (messageContents timestamp nonce recipient bytes) = ?n + length ?cat"
    by (simp add: messageContents_def)
  have cat: "length ?cat = ?n"
    by (simp add: length_to_bytes)
  show "(messageContents timestamp nonce recipient bytes = ?cat)
       = (timestamp = [] \<and> nonce = [] \<and> recipient = [] \<and> bytes = [])"
  proof
    assume "messageContents timestamp nonce recipient bytes = ?cat"
    then have "?n + length ?cat = length ?cat" using len by simp
    then have "?n = 0" by simp
    then show "timestamp = [] \<and> nonce = [] \<and> recipient = [] \<and> bytes = []" by simp
  next
    assume "timestamp = [] \<and> nonce = [] \<and> recipient = [] \<and> bytes = []"
    then show "messageContents timestamp nonce recipient bytes = ?cat"
      by (simp add: messageContents_def to_bytes_def)
  qed
qed

text \<open>
  Claim C4. A \<open>POST /store\<close> request that carries the four \<open>X-Loki\<close> headers and whose
  proof-of-work check fails is answered with status 403 and the body
  \<open>Provided PoW nonce is not valid.\<close>, and the storage is left as it was.
\<close>

theorem pow_failure_forbidden:
  assumes "req_method req = POST" and "req_target req = ''/store''"
    and "req_fields req ''X-Loki-pow-nonce'' = Some nonce"
    and "req_fields req ''X-Loki-ttl'' = Some ttl"
    and "req_fields req ''X-Loki-timestamp'' = Some timestamp"
    and "req_fields req ''X-Loki-recipient'' = Some recipient"
    and "\<not> checkPoW env nonce timestamp ttl recipient (concat (req_body req))"
  shows "\<exists>c. serve env req st = Inr c
           \<and> res_result (response_m c) = forbidden
           \<and> status_code (res_result (response_m c)) = 403
           \<and> res_body (response_m c) = ''Provided PoW nonce is not valid.''
           \<and> storage_m c = st"
proof -
  have "is_store_request req nonce ttl timestamp recipient"
    using assms(1-6) by (simp add: is_store_request_def)
  from serve_store_rejected [OF this assms(7)]
  show ?thesis
    by (simp add: respond_fields parsed_store_fields started_fields)
qed

theorem pow_failure_forbidden_witness:
  "\<exists>c. serve sample_env (store_request ''0'' [1, 2, 3]) empty_Storage = Inr c
           \<and> res_result (response_m c) = forbidden
           \<and> status_code (res_result (response_m c)) = 403
           \<and> res_body (response_m c) = ''Provided PoW nonce is not valid.''
           \<and> storage_m c = empty_Storage"
  by (rule pow_failure_forbidden [where nonce = "''0''" and ttl = "''60''"
        and timestamp = "''17''" and recipient = "''05ab''"])
    (simp_all add: store_request_def store_fields_def sample_env_def Storage_env_fields
      sample_checkPoW_def)




text \<open>
  Claim C6, as amended. The claim gives 404 for every request that is neither
  \<open>GET /retrieve\<close> nor \<open>POST /store\<close>, unknown methods included. The handler answers 404 to a
  \<open>GET\<close> or a \<open>POST\<close> with another target, and 400 (\<open>bad_request\<close>) to every other method,
  whatever the target; the storage is untouched in both cases.
\<close>

theorem unrouted_request_status:
  "(req_method req = GET \<and> req_target req \<noteq> ''/retrieve''
      \<or> req_method req = POST \<and> req_target req \<noteq> ''/store''
    \<longrightarrow> (\<exists>c. serve env req st = Inr c \<and> res_result (response_m c) = not_found
              \<and> status_code (res_result (response_m c)) = 404 \<and> storage_m c = st))
   \<and> (req_method req \<noteq> GET \<and> req_method req \<noteq> POST
    \<longrightarrow> (\<exists>c. serve env req st = Inr c \<and> res_result (response_m c) = bad_request
              \<and> status_code (res_result (response_m c)) = 400 \<and> storage_m c = st))"
  by (cases "req_method req")
    (simp_all add: serve_def process_request_def new_connection_def set_result_def Let_def)

theorem unrouted_request_status_witness:
  "(\<exists>c. serve sample_env (other_request GET ''/nowhere'') empty_Storage = Inr c
        \<and> res_result (response_m c) = not_found
        \<and> status_code (res_result (response_m c)) = 404 \<and> storage_m c = empty_Storage)
   \<and> (\<exists>c. serve sample_env (other_request DELETE ''/store'') empty_Storage = Inr c
        \<and> res_result (response_m c) = bad_request
        \<and> status_code (res_result (response_m c)) = 400 \<and> storage_m c = empty_Storage)"
  using unrouted_request_status [of "other_request GET ''/nowhere''" sample_env empty_Storage]
    unrouted_request_status [of "other_request DELETE ''/store''" sample_env empty_Storage]
  by (simp add: other_request_def)

theorem unknown_method_counterexample:
  "response_status (serve sample_env (other_request PUT ''/store'') empty_Storage) = Some bad_request
   \<and> status_code bad_request \<noteq> 404"
  by (simp add: response_status_def serve_def process_request_def new_connection_def
      set_result_def other_request_def Let_def)



section \<open>The retrieve handler: the claim\<close>

text \<open>
  Claim C3. The claim: a successful lookup, also one that finds no message, gives status 200
  and the JSON object with the array of messages. When the lookup returns no item, the handler's
  \<open>pop_back\<close> removes the opening bracket of the array instead of a trailing comma: the status
  is 200 and the body is \<open>{"messages": ]}\<close>, which holds no opening bracket.
\<close>

theorem retrieve_nothing_body:
  assumes "req_method req = GET" and "req_target req = ''/retrieve''"
    and "req_fields req ''pubkey'' = Some pk"
    and "Storage_retrieve env st pk
           (case req_fields req ''last_hash'' of None \<Rightarrow> [] | Some v \<Rightarrow> v) = Inr (flag, [])"
  shows "\<exists>c. serve env req st = Inr c \<and> res_result (response_m c) = ok
           \<and> res_body (response_m c) = ''{'' @ dq @ ''messages'' @ dq @ '': ]}''
           \<and> CHR ''['' \<notin> set (res_body (response_m c))"
  using assms
  by (simp add: serve_def process_request_def process_retrieve_def new_connection_def
      new_response_def header_at_def respond_def retrieve_body_Nil Let_def dq_def)

theorem retrieve_nothing_body_witness:
  "\<exists>c. serve sample_env retrieve_request empty_Storage = Inr c \<and> res_result (response_m c) = ok
           \<and> res_body (response_m c) = ''{'' @ dq @ ''messages'' @ dq @ '': ]}''
           \<and> CHR ''['' \<notin> set (res_body (response_m c))"
  by (rule retrieve_nothing_body [where pk = "''05ab''" and flag = True])
    (simp_all add: retrieve_request_def sample_env_def Storage_env_fields retrieve_def
      empty_Storage_def)

end
